theory Spec2Isabelle
  imports Main "HOL-Library.AList"
begin

section \<open>Items, expressions and the table\<close>

text \<open>
  An item of the single table is a flat dictionary from attribute names to typed values.
  The sources write strings (\<open>S\<close>), numbers (\<open>N\<close>) and, in the version-0 post records,
  one nested document (\<open>postedBy\<close>, \<open>M\<close>). A Python dict is modelled as an association
  list read with \<open>map_of\<close>, so that an item is empty exactly when it is \<open>[]\<close>.
\<close>

datatype attr = S string | N int | M "(string \<times> attr) list"

type_synonym item = "(string \<times> attr) list"
type_synonym key = "string \<times> string"
type_synonym table = "item list"

text \<open>
  The sources pass update and condition expressions to the store as strings. They are
  embedded here by their structure, with the placeholders (\<open>:one\<close>, \<open>#name\<close>) kept:
  \<open>SET a = :v\<close> is \<open>SET a (Value '':v'')\<close>, \<open>SET a = b.c\<close> is \<open>SET a (Path [b, c])\<close>,
  \<open>ADD a :v\<close> is \<open>ADD a '':v''\<close>, \<open>a = :v\<close> is \<open>Equals a '':v''\<close>, \<open>a > :v\<close> is
  \<open>Greater a '':v''\<close>, \<open>NOT c\<close> is \<open>Neg c\<close> and \<open>c and d\<close> is \<open>Conj c d\<close>.
\<close>

datatype operand = Value string | Path "string list"

datatype action = SET string operand | REMOVE string | ADD string string

datatype condition =
    attribute_exists string
  | attribute_not_exists string
  | Equals string string
  | Greater string string
  | begins_with string string
  | Neg condition
  | Conj condition condition

datatype error =
    ConditionalCheckFailedException
  | ValidationException
  | TransactionCanceledException
  | KeyError string
  | AssertionError string
  | AlbumAlreadyExists string
  | AlbumDoesNotExist string
  | AlreadyFlagged string string string
  | NotFlagged string string string
  | Exception string

record update_query =
  Key :: key
  UpdateExpression :: "action list"
  ConditionExpression :: "condition option"
  ExpressionAttributeNames :: "(string \<times> string) list"
  ExpressionAttributeValues :: "(string \<times> attr) list"

record put_query =
  Item :: item
  PutCondition :: "condition option"

subsection \<open>The store: conditional single-item writes\<close>

definition key_of :: "item \<Rightarrow> key option" where
  "key_of it =
     (case map_of it ''partitionKey'' of
        Some (S p) \<Rightarrow> (case map_of it ''sortKey'' of Some (S s) \<Rightarrow> Some (p, s) | _ \<Rightarrow> None)
      | _ \<Rightarrow> None)"

definition has_key :: "key \<Rightarrow> item \<Rightarrow> bool" where
  "has_key k it = (key_of it = Some k)"

definition key_item :: "key \<Rightarrow> item" where
  "key_item k = [(''partitionKey'', S (fst k)), (''sortKey'', S (snd k))]"

definition table_get_item :: "table \<Rightarrow> key \<Rightarrow> item option" where
  "table_get_item tbl k = find (has_key k) tbl"

definition attr_name :: "(string \<times> string) list \<Rightarrow> string \<Rightarrow> string" where
  "attr_name nms a = (case map_of nms a of Some n \<Rightarrow> n | None \<Rightarrow> a)"

fun lookup_path :: "item \<Rightarrow> string list \<Rightarrow> attr option" where
  "lookup_path it [] = None"
| "lookup_path it [a] = map_of it a"
| "lookup_path it (a # b # rest) =
     (case map_of it a of Some (M m) \<Rightarrow> lookup_path m (b # rest) | _ \<Rightarrow> None)"

fun eval_operand :: "item \<Rightarrow> (string \<times> attr) list \<Rightarrow> operand \<Rightarrow> attr option" where
  "eval_operand old vals (Value p) = map_of vals p"
| "eval_operand old vals (Path ps) = lookup_path old ps"

text \<open>
  A condition is evaluated on the stored item (the empty item when the key is absent). A
  comparison whose attribute is missing, or whose operands are not of the compared type,
  is false. The sources compare numbers only with \<open>>\<close>.
\<close>

fun holds :: "item \<Rightarrow> (string \<times> string) list \<Rightarrow> (string \<times> attr) list \<Rightarrow> condition \<Rightarrow> bool" where
  "holds it nms vals (attribute_exists a) = (map_of it (attr_name nms a) \<noteq> None)"
| "holds it nms vals (attribute_not_exists a) = (map_of it (attr_name nms a) = None)"
| "holds it nms vals (Equals a p) =
     (case map_of it (attr_name nms a) of
        None \<Rightarrow> False
      | Some v \<Rightarrow> (case map_of vals p of None \<Rightarrow> False | Some w \<Rightarrow> v = w))"
| "holds it nms vals (Greater a p) =
     (case map_of it (attr_name nms a) of
        Some (N x) \<Rightarrow> (case map_of vals p of Some (N y) \<Rightarrow> y < x | _ \<Rightarrow> False)
      | _ \<Rightarrow> False)"
| "holds it nms vals (begins_with a p) =
     (case map_of it (attr_name nms a) of
        Some (S x) \<Rightarrow> (case map_of vals p of Some (S y) \<Rightarrow> take (length y) x = y | _ \<Rightarrow> False)
      | _ \<Rightarrow> False)"
| "holds it nms vals (Neg c) = (\<not> holds it nms vals c)"
| "holds it nms vals (Conj c d) = (holds it nms vals c \<and> holds it nms vals d)"

text \<open>
  One action of an update expression. Operands are read from the item as it was before
  the update (\<open>old\<close>); \<open>ADD\<close> on a missing attribute starts from zero. \<open>None\<close> is the
  store's validation error (a missing placeholder or path, \<open>ADD\<close> on a non-number).
\<close>

fun apply_action ::
  "item \<Rightarrow> (string \<times> string) list \<Rightarrow> (string \<times> attr) list \<Rightarrow> action \<Rightarrow> item \<Rightarrow> item option" where
  "apply_action old nms vals (SET a opd) it =
     (case eval_operand old vals opd of
        None \<Rightarrow> None
      | Some v \<Rightarrow> Some (AList.update (attr_name nms a) v it))"
| "apply_action old nms vals (REMOVE a) it = Some (AList.delete (attr_name nms a) it)"
| "apply_action old nms vals (ADD a p) it =
     (case map_of vals p of
        Some (N d) \<Rightarrow>
          (case map_of old (attr_name nms a) of
             None \<Rightarrow> Some (AList.update (attr_name nms a) (N d) it)
           | Some (N c) \<Rightarrow> Some (AList.update (attr_name nms a) (N (c + d)) it)
           | Some _ \<Rightarrow> None)
      | _ \<Rightarrow> None)"

fun apply_actions ::
  "item \<Rightarrow> (string \<times> string) list \<Rightarrow> (string \<times> attr) list \<Rightarrow> action list \<Rightarrow> item \<Rightarrow> item option" where
  "apply_actions old nms vals [] it = Some it"
| "apply_actions old nms vals (a # as) it =
     (case apply_action old nms vals a it of
        None \<Rightarrow> None
      | Some it' \<Rightarrow> apply_actions old nms vals as it')"

definition check_condition ::
  "item option \<Rightarrow> (string \<times> string) list \<Rightarrow> (string \<times> attr) list \<Rightarrow> condition option \<Rightarrow> bool" where
  "check_condition cur nms vals c =
     (case c of
        None \<Rightarrow> True
      | Some cond \<Rightarrow> holds (case cur of None \<Rightarrow> [] | Some it \<Rightarrow> it) nms vals cond)"

definition replace_item :: "key \<Rightarrow> item \<Rightarrow> table \<Rightarrow> table" where
  "replace_item k new tbl = map (\<lambda>it. if has_key k it then new else it) tbl"

text \<open>
  The store's \<open>update_item\<close>, returning the new item (\<open>ReturnValues = ALL_NEW\<close>) and the
  new table. A failed condition writes nothing. Without a condition an update of an
  absent key creates the item from its key.
\<close>

definition table_update_item :: "update_query \<Rightarrow> table \<Rightarrow> error + (item \<times> table)" where
  "table_update_item q tbl =
     (let cur = table_get_item tbl (Key q);
          nms = ExpressionAttributeNames q;
          vals = ExpressionAttributeValues q
      in if \<not> check_condition cur nms vals (ConditionExpression q)
         then Inl ConditionalCheckFailedException
         else (case cur of
                 None \<Rightarrow>
                   (case apply_actions [] nms vals (UpdateExpression q) (key_item (Key q)) of
                      None \<Rightarrow> Inl ValidationException
                    | Some new \<Rightarrow> Inr (new, tbl @ [new]))
               | Some old \<Rightarrow>
                   (case apply_actions old nms vals (UpdateExpression q) old of
                      None \<Rightarrow> Inl ValidationException
                    | Some new \<Rightarrow> Inr (new, replace_item (Key q) new tbl))))"

text \<open>The store's \<open>put_item\<close>: the item replaces the one stored under its key, if any.\<close>

definition table_put_item :: "put_query \<Rightarrow> table \<Rightarrow> error + table" where
  "table_put_item q tbl =
     (case key_of (Item q) of
        None \<Rightarrow> Inl ValidationException
      | Some k \<Rightarrow>
          (let cur = table_get_item tbl k
           in if \<not> check_condition cur [] [] (PutCondition q)
              then Inl ConditionalCheckFailedException
              else (case cur of
                      None \<Rightarrow> Inr (tbl @ [Item q])
                    | Some _ \<Rightarrow> Inr (replace_item k (Item q) tbl))))"

text \<open>The store's \<open>delete_item\<close>, returning what was stored (\<open>ReturnValues = ALL_OLD\<close>).\<close>

definition table_delete_item :: "key \<Rightarrow> table \<Rightarrow> item option \<times> table" where
  "table_delete_item k tbl = (table_get_item tbl k, filter (\<lambda>it. \<not> has_key k it) tbl)"

datatype transact_item = Update update_query

text \<open>
  The store's \<open>transact_write_items\<close>: every step is applied or none is. The steps of
  one transaction address different items, so applying them in turn is applying them at
  once; a failed condition cancels the transaction and no table is returned.
\<close>

fun transact_write_items :: "transact_item list \<Rightarrow> table \<Rightarrow> error + table" where
  "transact_write_items [] tbl = Inr tbl"
| "transact_write_items (Update q # steps) tbl =
     (case table_update_item q tbl of
        Inl e \<Rightarrow> Inl TransactionCanceledException
      | Inr (new, tbl') \<Rightarrow> transact_write_items steps tbl')"

section \<open>The store client\<close>

text \<open>
  The state the access classes run in: the table and the warnings written to the logger.
\<close>

record state =
  table :: table
  warnings :: "string list"

text \<open>
  Modelled from the spec: the store client wrapper (\<open>DynamoClient\<close>, the \<open>dynamo_client\<close>
  every access class is built with) is not among the sources. \<open>get_item\<close> is the spec's
  \<open>getItem(key)\<close>.
\<close>

definition client_get_item :: "key \<Rightarrow> state \<Rightarrow> item option" where
  "client_get_item k s = table_get_item (table s) k"

text \<open>
  Modelled from the spec: \<open>add_item\<close> of the absent client is the spec's \<open>create\<close> /
  \<open>putItemIfAbsent(item)\<close>: it "inserts a new record" and fails "if the primary key is
  already present (condition: partition key must not exist)", with the store's
  conditional-check failure. It returns the item written.
\<close>

definition client_add_item :: "item \<Rightarrow> state \<Rightarrow> (error + item) \<times> state" where
  "client_add_item it s =
     (case table_put_item \<lparr>Item = it, PutCondition = Some (attribute_not_exists ''partitionKey'')\<rparr>
             (table s) of
        Inl e \<Rightarrow> (Inl e, s)
      | Inr tbl' \<Rightarrow> (Inr it, s\<lparr>table := tbl'\<rparr>))"

text \<open>
  Modelled from the spec: \<open>update_item\<close> of the absent client is the spec's \<open>update\<close>
  ("applies a partial update", "no existence precondition by default") and, when a
  \<open>failure_warning\<close> is given, its \<open>updateConditional\<close>: "as update, but fails
  silently/soft (logs a warning, returns the failure) rather than raising". It returns
  the new item; the soft failure is the result \<open>None\<close>.
\<close>

definition client_update_item ::
  "update_query \<Rightarrow> string option \<Rightarrow> state \<Rightarrow> (error + item option) \<times> state" where
  "client_update_item q failure_warning s =
     (case table_update_item q (table s) of
        Inr (new, tbl') \<Rightarrow> (Inr (Some new), s\<lparr>table := tbl'\<rparr>)
      | Inl e \<Rightarrow>
          (if e = ConditionalCheckFailedException
           then (case failure_warning of
                   None \<Rightarrow> (Inl e, s)
                 | Some w \<Rightarrow> (Inr None, s\<lparr>warnings := warnings s @ [w]\<rparr>))
           else (Inl e, s)))"

text \<open>
  Modelled from the spec: \<open>delete_item\<close> of the absent client is the spec's \<open>delete\<close> /
  \<open>deleteItemIfPresent(key)\<close>: it "removes a record" and returns what was deleted,
  nothing when the key did not exist.
\<close>

definition client_delete_item :: "key \<Rightarrow> state \<Rightarrow> item option \<times> state" where
  "client_delete_item k s =
     (case table_delete_item k (table s) of (deleted, tbl') \<Rightarrow> (deleted, s\<lparr>table := tbl'\<rparr>))"

section \<open>AlbumDynamo\<close>

text \<open>
  Timestamps enter as their ISO-8601 strings: \<open>now\<close>, \<open>created_at\<close> and \<open>delete_at\<close>
  stand for \<open>to_iso8601_string()\<close> of the clock value the source uses. \<open>pk\<close> and
  \<open>typed_pk\<close> name the same key in the two formats of the store's interfaces.
\<close>

definition album_pk :: "string \<Rightarrow> key" where
  "album_pk album_id = (''album/'' @ album_id, ''-'')"

definition get_album :: "string \<Rightarrow> state \<Rightarrow> item option" where
  "get_album album_id s = client_get_item (album_pk album_id) s"

definition add_album_item ::
  "string \<Rightarrow> string \<Rightarrow> string \<Rightarrow> string option \<Rightarrow> string \<Rightarrow> item" where
  "add_album_item album_id user_id name description created_at_str =
     key_item (album_pk album_id) @
     [(''schemaVersion'', N 0),
      (''gsiA1PartitionKey'', S (''album/'' @ user_id)),
      (''gsiA1SortKey'', S created_at_str),
      (''albumId'', S album_id),
      (''ownedByUserId'', S user_id),
      (''createdAt'', S created_at_str),
      (''name'', S name)] @
     (case description of None \<Rightarrow> [] | Some d \<Rightarrow> [(''description'', S d)])"

definition add_album ::
  "string \<Rightarrow> string \<Rightarrow> string \<Rightarrow> string option \<Rightarrow> string \<Rightarrow> state \<Rightarrow> (error + item) \<times> state" where
  "add_album album_id user_id name description created_at_str s =
     (case client_add_item (add_album_item album_id user_id name description created_at_str) s of
        (Inl e, s') \<Rightarrow>
          (if e = ConditionalCheckFailedException then (Inl (AlbumAlreadyExists album_id), s')
           else (Inl e, s'))
      | (Inr it, s') \<Rightarrow> (Inr it, s'))"

text \<open>
  \<open>set\<close>: the two assertions, then the update built from the arguments. The actions are
  kept in the order the source appends them, which is also the order of its \<open>SET\<close> and
  \<open>REMOVE\<close> clauses.
\<close>

definition set_exp_actions :: "string option \<Rightarrow> string option \<Rightarrow> action list" where
  "set_exp_actions name description =
     (case name of None \<Rightarrow> [] | Some n \<Rightarrow> [SET ''#name'' (Value '':name'')]) @
     (case description of
        None \<Rightarrow> []
      | Some d \<Rightarrow>
          (if d = [] then [REMOVE ''description'']
           else [SET ''description'' (Value '':description'')]))"

definition set_exp_names :: "string option \<Rightarrow> (string \<times> string) list" where
  "set_exp_names name = (case name of None \<Rightarrow> [] | Some n \<Rightarrow> [(''#name'', ''name'')])"

definition set_exp_values :: "string option \<Rightarrow> string option \<Rightarrow> (string \<times> attr) list" where
  "set_exp_values name description =
     (case name of None \<Rightarrow> [] | Some n \<Rightarrow> [('':name'', S n)]) @
     (case description of
        None \<Rightarrow> []
      | Some d \<Rightarrow> (if d = [] then [] else [('':description'', S d)]))"

definition set_update_query :: "string \<Rightarrow> string option \<Rightarrow> string option \<Rightarrow> update_query" where
  "set_update_query album_id name description =
     \<lparr>Key = album_pk album_id,
      UpdateExpression = set_exp_actions name description,
      ConditionExpression = None,
      ExpressionAttributeNames = set_exp_names name,
      ExpressionAttributeValues = set_exp_values name description\<rparr>"

definition set_album ::
  "string \<Rightarrow> string option \<Rightarrow> string option \<Rightarrow> state \<Rightarrow> (error + item option) \<times> state" where
  "set_album album_id name description s =
     (if \<not> (name \<noteq> None \<or> description \<noteq> None)
      then (Inl (AssertionError ''Action-less post edit requested''), s)
      else if \<not> (name \<noteq> Some [])
      then (Inl (AssertionError ''All albums must have names''), s)
      else client_update_item (set_update_query album_id name description) None s)"



text \<open>
  \<open>delete_album\<close> tests the deleted item for truth; a Python dict is true when it is not
  empty.
\<close>

definition delete_album :: "string \<Rightarrow> state \<Rightarrow> (error + item) \<times> state" where
  "delete_album album_id s =
     (case client_delete_item (album_pk album_id) s of
        (Some item_deleted, s') \<Rightarrow>
          (if item_deleted \<noteq> [] then (Inr item_deleted, s')
           else (Inl (AlbumDoesNotExist album_id), s'))
      | (None, s') \<Rightarrow> (Inl (AlbumDoesNotExist album_id), s'))"

definition transact_add_post :: "string \<Rightarrow> int option \<Rightarrow> string \<Rightarrow> transact_item" where
  "transact_add_post album_id old_rank_count now =
     Update
       \<lparr>Key = album_pk album_id,
        UpdateExpression =
          [ADD ''postCount'' '':one'', ADD ''rankCount'' '':one'',
           SET ''postsLastUpdatedAt'' (Value '':now'')],
        ConditionExpression =
          Some (Conj (attribute_exists ''partitionKey'')
                  (case old_rank_count of
                     Some rc \<Rightarrow> Equals ''rankCount'' '':rc''
                   | None \<Rightarrow> attribute_not_exists ''rankCount'')),
        ExpressionAttributeNames = [],
        ExpressionAttributeValues =
          [('':one'', N 1), ('':now'', S now)] @
          (case old_rank_count of Some rc \<Rightarrow> [('':rc'', N rc)] | None \<Rightarrow> [])\<rparr>"

definition transact_remove_post :: "string \<Rightarrow> string \<Rightarrow> transact_item" where
  "transact_remove_post album_id now =
     Update
       \<lparr>Key = album_pk album_id,
        UpdateExpression =
          [ADD ''postCount'' '':negative_one'', SET ''postsLastUpdatedAt'' (Value '':now'')],
        ConditionExpression =
          Some (Conj (attribute_exists ''partitionKey'') (Greater ''postCount'' '':zero'')),
        ExpressionAttributeNames = [],
        ExpressionAttributeValues =
          [('':negative_one'', N (- 1)), ('':now'', S now), ('':zero'', N 0)]\<rparr>"

definition transact_increment_rank_count :: "string \<Rightarrow> int \<Rightarrow> string \<Rightarrow> transact_item" where
  "transact_increment_rank_count album_id old_rank_count now =
     Update
       \<lparr>Key = album_pk album_id,
        UpdateExpression =
          [ADD ''rankCount'' '':one'', SET ''postsLastUpdatedAt'' (Value '':now'')],
        ConditionExpression =
          Some (Conj (attribute_exists ''partitionKey'') (Equals ''rankCount'' '':rc'')),
        ExpressionAttributeNames = [],
        ExpressionAttributeValues =
          [('':one'', N 1), ('':now'', S now), ('':rc'', N old_rank_count)]\<rparr>"

section \<open>FlagDynamo\<close>

definition flag_pk :: "string \<Rightarrow> string \<Rightarrow> string \<Rightarrow> key" where
  "flag_pk item_type item_id user_id = (item_type @ ''/'' @ item_id, ''flag/'' @ user_id)"

definition flag_get :: "string \<Rightarrow> string \<Rightarrow> string \<Rightarrow> state \<Rightarrow> item option" where
  "flag_get item_type item_id user_id s = client_get_item (flag_pk item_type item_id user_id) s"

definition flag_add_item :: "string \<Rightarrow> string \<Rightarrow> string \<Rightarrow> string \<Rightarrow> item" where
  "flag_add_item item_type item_id user_id now =
     key_item (flag_pk item_type item_id user_id) @
     [(''schemaVersion'', N 0),
      (''gsiK1PartitionKey'', S (''flag/'' @ user_id)),
      (''gsiK1SortKey'', S item_type),
      (''createdAt'', S now)]"

definition flag_add ::
  "string \<Rightarrow> string \<Rightarrow> string \<Rightarrow> string \<Rightarrow> state \<Rightarrow> (error + item) \<times> state" where
  "flag_add item_type item_id user_id now s =
     (case client_add_item (flag_add_item item_type item_id user_id now) s of
        (Inl e, s') \<Rightarrow>
          (if e = ConditionalCheckFailedException
           then (Inl (AlreadyFlagged item_type item_id user_id), s')
           else (Inl e, s'))
      | (Inr it, s') \<Rightarrow> (Inr it, s'))"

text \<open>\<open>delete\<close> raises when the deleted item is false: nothing, or an empty dict.\<close>

definition flag_delete ::
  "string \<Rightarrow> string \<Rightarrow> string \<Rightarrow> state \<Rightarrow> (error + unit) \<times> state" where
  "flag_delete item_type item_id user_id s =
     (case client_delete_item (flag_pk item_type item_id user_id) s of
        (Some deleted, s') \<Rightarrow>
          (if deleted \<noteq> [] then (Inr (), s')
           else (Inl (NotFlagged item_type item_id user_id), s'))
      | (None, s') \<Rightarrow> (Inl (NotFlagged item_type item_id user_id), s'))"

section \<open>Migrations\<close>

subsection \<open>The store's scan\<close>

text \<open>
  A scan reads the table in its storage order, one page per call. A call examines at most
  \<open>page\<close> items after the item named by \<open>ExclusiveStartKey\<close>, returns those that pass
  the filter, and names the last item it examined as \<open>LastEvaluatedKey\<close> when items
  remain after the page. The page size stands for the store's limit on one response.
\<close>

record paginated =
  Items :: "item list"
  LastEvaluatedKey :: "key option"

definition after_key :: "key option \<Rightarrow> table \<Rightarrow> item list" where
  "after_key esk tbl =
     (case esk of None \<Rightarrow> tbl | Some k \<Rightarrow> drop 1 (dropWhile (\<lambda>it. \<not> has_key k it) tbl))"

definition table_scan :: "nat \<Rightarrow> (item \<Rightarrow> bool) \<Rightarrow> key option \<Rightarrow> table \<Rightarrow> paginated" where
  "table_scan page flt esk tbl =
     (let rest = after_key esk tbl;
          examined = take page rest
      in \<lparr>Items = filter flt examined,
          LastEvaluatedKey =
            (if page < length rest
             then (case examined of [] \<Rightarrow> None | _ \<Rightarrow> key_of (last examined))
             else None)\<rparr>)"

text \<open>
  The primary keys of a table: every record has its two key attributes and no two
  records share them.
\<close>

definition wf_table :: "table \<Rightarrow> bool" where
  "wf_table tbl = (list_all (\<lambda>it. key_of it \<noteq> None) tbl \<and> distinct (map key_of tbl))"

subsection \<open>\<open>post_0_to_1\<close>\<close>

text \<open>
  The filter of \<open>generate_all_posts\<close>:
  \<open>begins_with(partitionKey, :pk_prefix) and schemaVersion = :sv\<close>.
\<close>

definition post_filter :: "int \<Rightarrow> item \<Rightarrow> bool" where
  "post_filter version it =
     holds it [] [('':pk_prefix'', S ''post/''), ('':sv'', N version)]
       (Conj (begins_with ''partitionKey'' '':pk_prefix'') (Equals ''schemaVersion'' '':sv''))"

text \<open>
  The body of a \<open>for\<close> loop over the items of one page; an exception of the body ends
  the loop. A raised exception is the error together with the state at the moment it
  was raised, so that what the run did before it is not lost.
\<close>

fun for_items ::
  "(item \<Rightarrow> 'a \<Rightarrow> (error \<times> 'a) + 'a) \<Rightarrow> item list \<Rightarrow> 'a \<Rightarrow> (error \<times> 'a) + 'a" where
  "for_items body [] st = Inr st"
| "for_items body (x # xs) st =
     (case body x st of Inl e \<Rightarrow> Inl e | Inr st' \<Rightarrow> for_items body xs st')"

text \<open>
  \<open>generate_all_posts\<close> is a generator: the consumer's loop body runs at each \<open>yield\<close>,
  between the scans, and the next scan reads the table as the body left it. The model
  takes the body as an argument and threads the consumer's state \<open>'a\<close> and the table
  through the loop. \<open>esk\<close> is \<open>scan_kwargs['ExclusiveStartKey']\<close>, absent at first.
  The \<open>while True\<close> loop need not end, so the function is partial: \<open>None\<close> is a loop
  that never returns.
\<close>

partial_function (option) generate_all_posts ::
  "nat \<Rightarrow> int \<Rightarrow> (item \<Rightarrow> 'a \<times> table \<Rightarrow> (error \<times> 'a \<times> table) + 'a \<times> table) \<Rightarrow> key option
     \<Rightarrow> 'a \<times> table \<Rightarrow> ((error \<times> 'a \<times> table) + 'a \<times> table) option" where
  "generate_all_posts page version body esk st =
     (let paginated = table_scan page (post_filter version) esk (snd st)
      in case for_items body (Items paginated) st of
           Inl e \<Rightarrow> Some (Inl e)
         | Inr st' \<Rightarrow>
             (case LastEvaluatedKey paginated of
                None \<Rightarrow> Some (Inr st')
              | Some k \<Rightarrow> generate_all_posts page version body (Some k) st'))"

declare generate_all_posts.simps [code]

text \<open>Draining the generator into a list, \<open>list(generate_all_posts(version))\<close>.\<close>

definition collect ::
  "item \<Rightarrow> item list \<times> table \<Rightarrow> (error \<times> item list \<times> table) + item list \<times> table" where
  "collect it st = Inr (fst st @ [it], snd st)"

text \<open>
  What a migration run leaves behind, besides the table: the lines it printed and the
  number of \<open>update_item\<close> calls it made. \<open>Updating_item pk sk\<close> is the line
  \<open>Updating item: {kwargs} ...\<close> for the \<open>kwargs\<close> whose \<open>Key\<close> holds the values
  \<open>pk\<close> and \<open>sk\<close>; the rest of \<open>kwargs\<close> is the same in every call.
\<close>

datatype line = Updating_item attr attr | Done

record run =
  printed :: "line list"
  update_item_calls :: nat

text \<open>
  \<open>update_post_from_0_to_1\<close> reads the two key attributes of the item in the order of
  the source, each raising \<open>KeyError\<close> when missing, prints the first line, calls
  \<open>update_item\<close>, and prints \<open>Done.\<close> when the call returns. The table's keys are
  strings: the store rejects any other key value.
\<close>

definition update_post_from_0_to_1 ::
  "item \<Rightarrow> run \<times> table \<Rightarrow> (error \<times> run \<times> table) + run \<times> table" where
  "update_post_from_0_to_1 like st =
     (case map_of like ''partitionKey'' of
        None \<Rightarrow> Inl (KeyError ''partitionKey'', st)
      | Some pk \<Rightarrow>
          (case map_of like ''sortKey'' of
             None \<Rightarrow> Inl (KeyError ''sortKey'', st)
           | Some sk \<Rightarrow>
               (let r = (fst st)\<lparr>printed := printed (fst st) @ [Updating_item pk sk],
                                  update_item_calls := update_item_calls (fst st) + 1\<rparr>
                in case key_of like of
                     None \<Rightarrow> Inl (ValidationException, (r, snd st))
                   | Some k \<Rightarrow>
                       (case table_update_item
                               \<lparr>Key = k,
                                UpdateExpression =
                                  [SET ''postedByUserId'' (Path [''postedBy'', ''userId'']),
                                   SET ''schemaVersion'' (Value '':one''),
                                   REMOVE ''postedBy''],
                                ConditionExpression =
                                  Some (Conj (attribute_exists ''partitionKey'')
                                          (Equals ''schemaVersion'' '':zero'')),
                                ExpressionAttributeNames = [],
                                ExpressionAttributeValues = [('':zero'', N 0), ('':one'', N 1)]\<rparr>
                               (snd st) of
                          Inl e \<Rightarrow> Inl (e, (r, snd st))
                        | Inr (new, tbl') \<Rightarrow> Inr (r\<lparr>printed := printed r @ [Done]\<rparr>, tbl')))))"

definition main :: "nat \<Rightarrow> table \<Rightarrow> ((error \<times> run \<times> table) + run \<times> table) option" where
  "main page tbl =
     generate_all_posts page 0 update_post_from_0_to_1 None
       (\<lparr>printed = [], update_item_calls = 0\<rparr>, tbl)"

subsection \<open>\<open>user_6_to_7\<close>\<close>

text \<open>
  Modelled from the spec: \<open>migrations/user_6_to_7.py\<close> (the class \<open>Migration\<close> with
  \<open>dynamo_update_user\<close>) is not among the sources; only its test is. By the spec the
  update "to bump \<open>schemaVersion\<close> and set the derived field is conditioned on the
  record's previous state of the derived field": "only set \<open>postArchivedCount\<close> and bump
  \<open>schemaVersion\<close> if the record still lacks the field, or still holds the exact value
  we last computed for it", and a mismatch "must raise a fatal error for that record
  (\<open>Update failed for user {id}\<close>) rather than silently overwriting". The key of a user
  record and the versions 6 and 7 are those of the test's fixtures.
\<close>

definition user_pk :: "string \<Rightarrow> key" where
  "user_pk user_id = (''user/'' @ user_id, ''profile'')"

definition dynamo_update_user ::
  "string \<Rightarrow> int option \<Rightarrow> int \<Rightarrow> state \<Rightarrow> (error + unit) \<times> state" where
  "dynamo_update_user user_id old_value new_value s =
     (case table_update_item
             \<lparr>Key = user_pk user_id,
              UpdateExpression =
                [SET ''schemaVersion'' (Value '':sv''),
                 SET ''postArchivedCount'' (Value '':new'')],
              ConditionExpression =
                Some (case old_value of
                        None \<Rightarrow> attribute_not_exists ''postArchivedCount''
                      | Some v \<Rightarrow> Equals ''postArchivedCount'' '':old''),
              ExpressionAttributeNames = [],
              ExpressionAttributeValues =
                [('':sv'', N 7), ('':new'', N new_value)] @
                (case old_value of None \<Rightarrow> [] | Some v \<Rightarrow> [('':old'', N v)])\<rparr>
             (table s) of
        Inr (new, tbl') \<Rightarrow> (Inr (), s\<lparr>table := tbl'\<rparr>)
      | Inl e \<Rightarrow>
          (if e = ConditionalCheckFailedException
           then (Inl (Exception (''Update failed for user '' @ user_id)), s)
           else (Inl e, s)))"

section \<open>Properties of the store operations\<close>

lemma has_key_unique: "has_key k it \<Longrightarrow> has_key k' it \<Longrightarrow> k = k'"
  by (simp add: has_key_def)

lemma has_key_nonempty: "has_key k it \<Longrightarrow> it \<noteq> []"
  by (auto simp: has_key_def key_of_def)


lemma key_of_key_item_append: "key_of (key_item k @ rest) = Some k"
  by (simp add: key_of_def key_item_def)

lemma table_get_item_single: "table_get_item [key_item k @ rest] k = Some (key_item k @ rest)"
  by (simp add: table_get_item_def has_key_def key_of_key_item_append)

lemma table_get_item_has_key: "table_get_item tbl k = Some it \<Longrightarrow> has_key k it"
  by (auto simp: table_get_item_def find_Some_iff)

lemma table_get_item_append_new:
  "table_get_item tbl k = None \<Longrightarrow> has_key k new \<Longrightarrow> table_get_item (tbl @ [new]) k = Some new"
  by (induction tbl) (auto simp: table_get_item_def)

lemma table_get_item_append_other:
  "has_key k new \<Longrightarrow> k' \<noteq> k \<Longrightarrow> table_get_item (tbl @ [new]) k' = table_get_item tbl k'"
  by (induction tbl) (auto simp: table_get_item_def dest: has_key_unique)

lemma table_get_item_replace_same:
  "table_get_item tbl k = Some old \<Longrightarrow> has_key k new \<Longrightarrow>
   table_get_item (replace_item k new tbl) k = Some new"
  by (induction tbl) (auto simp: table_get_item_def replace_item_def split: if_splits)

lemma table_get_item_replace_other:
  "has_key k new \<Longrightarrow> k' \<noteq> k \<Longrightarrow>
   table_get_item (replace_item k new tbl) k' = table_get_item tbl k'"
  by (induction tbl) (auto simp: table_get_item_def replace_item_def dest: has_key_unique)

lemma table_get_item_delete_same: "table_get_item (filter (\<lambda>it. \<not> has_key k it) tbl) k = None"
  by (induction tbl) (auto simp: table_get_item_def)

lemma table_get_item_delete_other:
  "k' \<noteq> k \<Longrightarrow> table_get_item (filter (\<lambda>it. \<not> has_key k it) tbl) k' = table_get_item tbl k'"
  by (induction tbl) (auto simp: table_get_item_def dest: has_key_unique)

lemma table_update_item_error:
  "table_update_item q tbl = Inl e \<Longrightarrow>
   e = ConditionalCheckFailedException \<or> e = ValidationException"
  by (auto simp: table_update_item_def Let_def split: if_splits option.splits)

lemma client_update_item_error:
  "fst (client_update_item q w s) = Inl e \<Longrightarrow>
   e = ConditionalCheckFailedException \<or> e = ValidationException"
  by (auto simp: client_update_item_def split: sum.splits if_splits option.splits prod.splits
      dest: table_update_item_error)

section \<open>The assertions of \<open>set\<close>\<close>

text \<open>
  Claim C10. \<open>AlbumDynamo.set\<close> called with neither a name nor a description, or with
  the empty string as name, fails an assertion and returns the state as it was, so no
  store write is attempted; the empty string is not accepted for the name. When the name
  is absent or non-empty and one of name and description is given, no assertion fails
  and the call is the client's update of the built query.
\<close>

theorem set_album_precondition:
  "(name = None \<and> description = None \<longrightarrow>
      set_album album_id name description s =
        (Inl (AssertionError ''Action-less post edit requested''), s)) \<and>
   (name = Some [] \<longrightarrow>
      set_album album_id name description s =
        (Inl (AssertionError ''All albums must have names''), s)) \<and>
   (name \<noteq> Some [] \<and> (name \<noteq> None \<or> description \<noteq> None) \<longrightarrow>
      (\<forall>msg. fst (set_album album_id name description s) \<noteq> Inl (AssertionError msg)) \<and>
      set_album album_id name description s =
        client_update_item (set_update_query album_id name description) None s)"
proof -
  have "fst (client_update_item q None s) \<noteq> Inl (AssertionError msg)" for q msg
    using client_update_item_error [of q None s "AssertionError msg"] by auto
  then show ?thesis
    by (auto simp: set_album_def)
qed

theorem set_album_precondition_witness:
  "set_album ''a1'' None None \<lparr>table = [], warnings = []\<rparr> =
     (Inl (AssertionError ''Action-less post edit requested''), \<lparr>table = [], warnings = []\<rparr>) \<and>
   set_album ''a1'' (Some []) (Some ''d'') \<lparr>table = [], warnings = []\<rparr> =
     (Inl (AssertionError ''All albums must have names''), \<lparr>table = [], warnings = []\<rparr>) \<and>
   (\<forall>msg. fst (set_album ''a1'' (Some ''n'') None \<lparr>table = [], warnings = []\<rparr>)
      \<noteq> Inl (AssertionError msg))"
  using
    set_album_precondition [where name = None and description = None and album_id = "''a1''"
      and s = "\<lparr>table = [], warnings = []\<rparr>"]
    set_album_precondition [where name = "Some []" and description = "Some ''d''"
      and album_id = "''a1''" and s = "\<lparr>table = [], warnings = []\<rparr>"]
    set_album_precondition [where name = "Some ''n''" and description = None
      and album_id = "''a1''" and s = "\<lparr>table = [], warnings = []\<rparr>"]
  by auto

section \<open>The update built by \<open>set\<close>\<close>

lemma has_key_cong:
  "map_of a ''partitionKey'' = map_of b ''partitionKey'' \<Longrightarrow>
   map_of a ''sortKey'' = map_of b ''sortKey'' \<Longrightarrow> has_key k a = has_key k b"
  by (simp add: has_key_def key_of_def split: option.splits attr.splits)

lemma set_apply_actions:
  assumes "name \<noteq> Some []"
  shows "\<exists>new. apply_actions old (set_exp_names name) (set_exp_values name description)
             (set_exp_actions name description) it = Some new \<and>
           map_of new ''description'' =
             (case description of
                None \<Rightarrow> map_of it ''description''
              | Some d \<Rightarrow> if d = [] then None else Some (S d)) \<and>
           map_of new ''name'' =
             (case name of None \<Rightarrow> map_of it ''name'' | Some n \<Rightarrow> Some (S n)) \<and>
           (\<forall>a. a \<noteq> ''name'' \<and> a \<noteq> ''description'' \<longrightarrow> map_of new a = map_of it a)"
  using assms
  by (cases name; cases description)
    (auto simp: set_exp_names_def set_exp_values_def set_exp_actions_def attr_name_def
      update_conv' delete_conv')

text \<open>
  Claim C9. When the assertions of \<open>AlbumDynamo.set\<close> pass, the update it builds, applied
  to any item, removes the \<open>description\<close> attribute when the description is the empty
  string, sets it to the given value when the description is another string, and sets
  the name when one is given; an argument that is \<open>None\<close> leaves its attribute as it
  was and every other attribute keeps its value. Called on a stored album, \<open>set\<close>
  returns that updated item, stores it under the album's key, and changes no other
  record.
\<close>

theorem set_album_description:
  assumes "name \<noteq> Some []" and "name \<noteq> None \<or> description \<noteq> None"
  shows
    "\<exists>new.
       apply_actions it
         (ExpressionAttributeNames (set_update_query album_id name description))
         (ExpressionAttributeValues (set_update_query album_id name description))
         (UpdateExpression (set_update_query album_id name description)) it = Some new \<and>
       map_of new ''description'' =
         (case description of
            None \<Rightarrow> map_of it ''description''
          | Some d \<Rightarrow> if d = [] then None else Some (S d)) \<and>
       map_of new ''name'' =
         (case name of None \<Rightarrow> map_of it ''name'' | Some n \<Rightarrow> Some (S n)) \<and>
       (\<forall>a. a \<noteq> ''name'' \<and> a \<noteq> ''description'' \<longrightarrow> map_of new a = map_of it a) \<and>
       (get_album album_id s = Some it \<longrightarrow>
          (\<exists>s'. set_album album_id name description s = (Inr (Some new), s') \<and>
             get_album album_id s' = Some new \<and>
             (\<forall>k. k \<noteq> album_pk album_id \<longrightarrow>
                table_get_item (table s') k = table_get_item (table s) k) \<and>
             warnings s' = warnings s))"
proof -
  let ?k = "album_pk album_id"
  let ?q = "set_update_query album_id name description"
  obtain new where new:
    "apply_actions it (set_exp_names name) (set_exp_values name description)
       (set_exp_actions name description) it = Some new"
    "map_of new ''description'' =
       (case description of
          None \<Rightarrow> map_of it ''description''
        | Some d \<Rightarrow> if d = [] then None else Some (S d))"
    "map_of new ''name'' = (case name of None \<Rightarrow> map_of it ''name'' | Some n \<Rightarrow> Some (S n))"
    "\<forall>a. a \<noteq> ''name'' \<and> a \<noteq> ''description'' \<longrightarrow> map_of new a = map_of it a"
    using set_apply_actions [OF assms(1), of it description it] by blast
  have stored: "\<exists>s'. set_album album_id name description s = (Inr (Some new), s') \<and>
      get_album album_id s' = Some new \<and>
      (\<forall>k. k \<noteq> ?k \<longrightarrow> table_get_item (table s') k = table_get_item (table s) k) \<and>
      warnings s' = warnings s"
    if got: "get_album album_id s = Some it"
  proof -
    have get: "table_get_item (table s) ?k = Some it"
      using got by (simp add: get_album_def client_get_item_def)
    have new_key: "has_key ?k new"
      using table_get_item_has_key [OF get] new(4) has_key_cong [of new it ?k] by simp
    have upd: "table_update_item ?q (table s) = Inr (new, replace_item ?k new (table s))"
      using new(1) get
      by (simp add: table_update_item_def set_update_query_def check_condition_def)
    have run: "set_album album_id name description s =
        (Inr (Some new), s\<lparr>table := replace_item ?k new (table s)\<rparr>)"
      using assms upd by (auto simp: set_album_def client_update_item_def)
    show ?thesis
      using run get new_key
      by (simp add: get_album_def client_get_item_def table_get_item_replace_same
          table_get_item_replace_other)
  qed
  show ?thesis
    using new stored by (auto simp: set_update_query_def)
qed

theorem set_album_description_witness:
  "(None :: string option) \<noteq> Some [] \<and> Some ''m'' \<noteq> Some [] \<and>
   get_album ''a1''
     \<lparr>table = [add_album_item ''a1'' ''u1'' ''n'' (Some ''d'') ''t''], warnings = []\<rparr> =
     Some (add_album_item ''a1'' ''u1'' ''n'' (Some ''d'') ''t'') \<and>
   (\<exists>new s'.
      set_album ''a1'' None (Some [])
        \<lparr>table = [add_album_item ''a1'' ''u1'' ''n'' (Some ''d'') ''t''], warnings = []\<rparr> =
        (Inr (Some new), s') \<and>
      get_album ''a1'' s' = Some new \<and> map_of new ''description'' = None \<and>
      map_of new ''name'' = Some (S ''n'') \<and> map_of new ''albumId'' = Some (S ''a1'')) \<and>
   (\<exists>new s'.
      set_album ''a1'' (Some ''m'') (Some ''e'')
        \<lparr>table = [add_album_item ''a1'' ''u1'' ''n'' (Some ''d'') ''t''], warnings = []\<rparr> =
        (Inr (Some new), s') \<and>
      get_album ''a1'' s' = Some new \<and> map_of new ''description'' = Some (S ''e'') \<and>
      map_of new ''name'' = Some (S ''m'') \<and> map_of new ''albumId'' = Some (S ''a1''))"
proof -
  let ?it = "add_album_item ''a1'' ''u1'' ''n'' (Some ''d'') ''t''"
  let ?s = "\<lparr>table = [?it], warnings = []\<rparr>"
  have g: "get_album ''a1'' ?s = Some ?it"
    by (simp add: get_album_def client_get_item_def add_album_item_def table_get_item_single)
  have n: "map_of ?it ''name'' = Some (S ''n'')" and a: "map_of ?it ''albumId'' = Some (S ''a1'')"
    by (simp_all add: add_album_item_def key_item_def)
  have r1: "\<exists>new s'. set_album ''a1'' None (Some []) ?s = (Inr (Some new), s') \<and>
      get_album ''a1'' s' = Some new \<and> map_of new ''description'' = None \<and>
      map_of new ''name'' = Some (S ''n'') \<and> map_of new ''albumId'' = Some (S ''a1'')"
    using g n a
      set_album_description [where name = None and description = "Some []"
        and album_id = "''a1''" and it = ?it and s = ?s]
    by auto
  have r2: "\<exists>new s'. set_album ''a1'' (Some ''m'') (Some ''e'') ?s = (Inr (Some new), s') \<and>
      get_album ''a1'' s' = Some new \<and> map_of new ''description'' = Some (S ''e'') \<and>
      map_of new ''name'' = Some (S ''m'') \<and> map_of new ''albumId'' = Some (S ''a1'')"
    using g n a
      set_album_description [where name = "Some ''m''" and description = "Some ''e''"
        and album_id = "''a1''" and it = ?it and s = ?s]
    by auto
  show ?thesis
    using g r1 r2 by simp
qed

section \<open>The album's transaction steps\<close>

lemma has_key_partitionKey: "has_key k it \<Longrightarrow> map_of it ''partitionKey'' = Some (S (fst k))"
  by (auto simp: has_key_def key_of_def split: option.splits attr.splits)

lemma attr_name_Nil: "attr_name [] a = a"
  by (simp add: attr_name_def)

lemma transact_single_absent:
  "table_get_item tbl k = None \<Longrightarrow>
   transact_write_items
     [Update \<lparr>Key = k, UpdateExpression = acts,
        ConditionExpression = Some (Conj (attribute_exists ''partitionKey'') c),
        ExpressionAttributeNames = [], ExpressionAttributeValues = vals\<rparr>] tbl =
   Inl TransactionCanceledException"
  by (simp add: table_update_item_def check_condition_def attr_name_def)

lemma transact_single_present:
  "table_get_item tbl k = Some old \<Longrightarrow>
   transact_write_items
     [Update \<lparr>Key = k, UpdateExpression = acts, ConditionExpression = c,
        ExpressionAttributeNames = nms, ExpressionAttributeValues = vals\<rparr>] tbl =
     (if check_condition (Some old) nms vals c
      then (case apply_actions old nms vals acts old of
              None \<Rightarrow> Inl TransactionCanceledException
            | Some new \<Rightarrow> Inr (replace_item k new tbl))
      else Inl TransactionCanceledException)"
  by (simp add: table_update_item_def split: option.splits)

lemma remove_post_condition:
  "has_key k old \<Longrightarrow>
   check_condition (Some old) []
     [('':negative_one'', N (- 1)), ('':now'', S now), ('':zero'', N 0)]
     (Some (Conj (attribute_exists ''partitionKey'') (Greater ''postCount'' '':zero''))) =
   (\<exists>c. map_of old ''postCount'' = Some (N c) \<and> 0 < c)"
  by (auto simp: check_condition_def attr_name_def dest: has_key_partitionKey
      split: option.splits attr.splits)

lemma remove_post_actions:
  "map_of old ''postCount'' = Some (N c) \<Longrightarrow>
   apply_actions old []
     [('':negative_one'', N (- 1)), ('':now'', S now), ('':zero'', N 0)]
     [ADD ''postCount'' '':negative_one'', SET ''postsLastUpdatedAt'' (Value '':now'')] old =
   Some (AList.update ''postsLastUpdatedAt'' (S now) (AList.update ''postCount'' (N (c - 1)) old))"
  by (simp add: attr_name_def)

lemma transact_remove_post_present:
  assumes "table_get_item tbl (album_pk album_id) = Some old"
  shows "transact_write_items [transact_remove_post album_id now] tbl =
     (case map_of old ''postCount'' of
        Some (N c) \<Rightarrow>
          if 0 < c
          then Inr (replace_item (album_pk album_id)
                 (AList.update ''postsLastUpdatedAt'' (S now)
                    (AList.update ''postCount'' (N (c - 1)) old)) tbl)
          else Inl TransactionCanceledException
      | _ \<Rightarrow> Inl TransactionCanceledException)"
proof -
  have hk: "has_key (album_pk album_id) old"
    using assms by (rule table_get_item_has_key)
  show ?thesis
    unfolding transact_remove_post_def
    by (subst transact_single_present [OF assms])
      (auto simp: remove_post_condition [OF hk] attr_name_Nil
        split: option.splits attr.splits)
qed


lemma has_key_update:
  "has_key k it \<Longrightarrow> a \<noteq> ''partitionKey'' \<Longrightarrow> a \<noteq> ''sortKey'' \<Longrightarrow>
   has_key k (AList.update a v it)"
  using has_key_cong [of "AList.update a v it" it k] by (simp add: update_conv')

lemma transact_remove_post_absent:
  "table_get_item tbl (album_pk album_id) = None \<Longrightarrow>
   transact_write_items [transact_remove_post album_id now] tbl = Inl TransactionCanceledException"
  unfolding transact_remove_post_def by (rule transact_single_absent)

text \<open>
  Claim C3. Committing the step built by \<open>transact_remove_post\<close> succeeds exactly when the
  album record exists and its \<open>postCount\<close> is a number greater than zero. In every other
  state (no record, no \<open>postCount\<close>, \<open>postCount = 0\<close>) the transaction is cancelled and
  nothing is written. A commit that succeeds takes \<open>postCount\<close> from \<open>c > 0\<close> to
  \<open>c - 1\<close>, which is not negative.
\<close>

theorem transact_remove_post_non_negative:
  "((\<exists>tbl'. transact_write_items [transact_remove_post album_id now] tbl = Inr tbl') =
      (\<exists>it c. table_get_item tbl (album_pk album_id) = Some it \<and>
               map_of it ''postCount'' = Some (N c) \<and> 0 < c)) \<and>
   (\<not> (\<exists>it c. table_get_item tbl (album_pk album_id) = Some it \<and>
               map_of it ''postCount'' = Some (N c) \<and> 0 < c) \<longrightarrow>
      transact_write_items [transact_remove_post album_id now] tbl =
        Inl TransactionCanceledException) \<and>
   (\<forall>it c. table_get_item tbl (album_pk album_id) = Some it \<and>
            map_of it ''postCount'' = Some (N c) \<and> 0 < c \<longrightarrow>
      (\<exists>it' tbl'.
         transact_write_items [transact_remove_post album_id now] tbl = Inr tbl' \<and>
         table_get_item tbl' (album_pk album_id) = Some it' \<and>
         map_of it' ''postCount'' = Some (N (c - 1)) \<and> 0 \<le> c - 1))"
proof (cases "table_get_item tbl (album_pk album_id)")
  case None
  then show ?thesis
    by (simp add: transact_remove_post_absent)
next
  case (Some old)
  have hk: "has_key (album_pk album_id) old"
    using Some by (rule table_get_item_has_key)
  have get: "table_get_item
      (replace_item (album_pk album_id)
         (AList.update ''postsLastUpdatedAt'' v (AList.update ''postCount'' w old)) tbl)
      (album_pk album_id) =
    Some (AList.update ''postsLastUpdatedAt'' v (AList.update ''postCount'' w old))" for v w
    using Some hk by (simp add: table_get_item_replace_same has_key_update)
  show ?thesis
    by (auto simp: Some transact_remove_post_present [OF Some] get update_conv'
        split: option.splits attr.splits)
qed

theorem transact_remove_post_non_negative_witness:
  "transact_write_items [transact_remove_post ''a1'' ''t'']
     [key_item (album_pk ''a1'') @ [(''postCount'', N 0)]] = Inl TransactionCanceledException \<and>
   (\<exists>it' tbl'.
      transact_write_items [transact_remove_post ''a1'' ''t'']
        [key_item (album_pk ''a1'') @ [(''postCount'', N 1)]] = Inr tbl' \<and>
      table_get_item tbl' (album_pk ''a1'') = Some it' \<and>
      map_of it' ''postCount'' = Some (N 0))"
proof -
  let ?it0 = "key_item (album_pk ''a1'') @ [(''postCount'', N 0)]"
  let ?it1 = "key_item (album_pk ''a1'') @ [(''postCount'', N 1)]"
  have g0: "table_get_item [?it0] (album_pk ''a1'') = Some ?it0"
    by (simp add: table_get_item_def has_key_def key_of_def key_item_def album_pk_def)
  have g1: "table_get_item [?it1] (album_pk ''a1'') = Some ?it1"
    by (simp add: table_get_item_def has_key_def key_of_def key_item_def album_pk_def)
  have p0: "map_of ?it0 ''postCount'' = Some (N 0)"
    by (simp add: key_item_def)
  have p1: "map_of ?it1 ''postCount'' = Some (N 1)"
    by (simp add: key_item_def)
  have a: "transact_write_items [transact_remove_post ''a1'' ''t''] [?it0] =
      Inl TransactionCanceledException"
    using transact_remove_post_non_negative [of "''a1''" "''t''" "[?it0]"] g0 p0 by auto
  have b: "\<exists>it' tbl'.
      transact_write_items [transact_remove_post ''a1'' ''t''] [?it1] = Inr tbl' \<and>
      table_get_item tbl' (album_pk ''a1'') = Some it' \<and>
      map_of it' ''postCount'' = Some (N 0)"
    using transact_remove_post_non_negative [of "''a1''" "''t''" "[?it1]"] g1 p1 by auto
  show ?thesis
    using a b by blast
qed

lemma transact_add_post_present:
  assumes "table_get_item tbl (album_pk album_id) = Some old"
  shows "transact_write_items [transact_add_post album_id old_rank_count now] tbl =
     (if (case old_rank_count of
            Some rc \<Rightarrow> map_of old ''rankCount'' = Some (N rc)
          | None \<Rightarrow> map_of old ''rankCount'' = None)
      then (case apply_actions old []
                   ([('':one'', N 1), ('':now'', S now)] @
                    (case old_rank_count of Some rc \<Rightarrow> [('':rc'', N rc)] | None \<Rightarrow> []))
                   [ADD ''postCount'' '':one'', ADD ''rankCount'' '':one'',
                    SET ''postsLastUpdatedAt'' (Value '':now'')] old of
              None \<Rightarrow> Inl TransactionCanceledException
            | Some new \<Rightarrow> Inr (replace_item (album_pk album_id) new tbl))
      else Inl TransactionCanceledException)"
proof -
  have hk: "map_of old ''partitionKey'' \<noteq> None"
    using table_get_item_has_key [OF assms] by (simp add: has_key_partitionKey)
  show ?thesis
    unfolding transact_add_post_def
    by (subst transact_single_present [OF assms])
      (cases old_rank_count; simp add: check_condition_def attr_name_Nil hk
        split: option.splits)
qed

lemma transact_add_post_absent:
  "table_get_item tbl (album_pk album_id) = None \<Longrightarrow>
   transact_write_items [transact_add_post album_id old_rank_count now] tbl =
     Inl TransactionCanceledException"
  unfolding transact_add_post_def by (rule transact_single_absent)

lemma transact_increment_rank_count_present:
  assumes "table_get_item tbl (album_pk album_id) = Some old"
  shows "transact_write_items [transact_increment_rank_count album_id old_rank_count now] tbl =
     (if map_of old ''rankCount'' = Some (N old_rank_count)
      then Inr (replace_item (album_pk album_id)
             (AList.update ''postsLastUpdatedAt'' (S now)
                (AList.update ''rankCount'' (N (old_rank_count + 1)) old)) tbl)
      else Inl TransactionCanceledException)"
proof -
  have hk: "map_of old ''partitionKey'' \<noteq> None"
    using table_get_item_has_key [OF assms] by (simp add: has_key_partitionKey)
  show ?thesis
    unfolding transact_increment_rank_count_def
    by (subst transact_single_present [OF assms])
      (auto simp: check_condition_def attr_name_Nil hk split: option.splits)
qed

lemma transact_increment_rank_count_absent:
  "table_get_item tbl (album_pk album_id) = None \<Longrightarrow>
   transact_write_items [transact_increment_rank_count album_id old_rank_count now] tbl =
     Inl TransactionCanceledException"
  unfolding transact_increment_rank_count_def by (rule transact_single_absent)

text \<open>
  Claim C4. A commit of the step built by \<open>transact_add_post\<close> succeeds only if the album
  record exists and its \<open>rankCount\<close> is the supplied \<open>old_rank_count\<close>, or is absent
  when \<open>old_rank_count\<close> is \<open>None\<close>. Committed with \<open>None\<close> against an album whose
  \<open>postCount\<close> and \<open>rankCount\<close> are undefined, it sets both to 1 in one write; committed
  with the matching count against an album that has both counters, it adds one to each.
  The step built by \<open>transact_increment_rank_count\<close> carries the same equality: it
  commits only on an existing album whose \<open>rankCount\<close> is the supplied one, and adds one.
\<close>

theorem transact_add_post_rank_count_condition:
  "(\<forall>tbl'. transact_write_items [transact_add_post album_id old_rank_count now] tbl = Inr tbl' \<longrightarrow>
      (\<exists>it. table_get_item tbl (album_pk album_id) = Some it \<and>
            map_of it ''rankCount'' = map_option N old_rank_count)) \<and>
   (\<forall>it. table_get_item tbl (album_pk album_id) = Some it \<and>
          map_of it ''postCount'' = None \<and> map_of it ''rankCount'' = None \<longrightarrow>
      (\<exists>it' tbl'.
         transact_write_items [transact_add_post album_id None now] tbl = Inr tbl' \<and>
         table_get_item tbl' (album_pk album_id) = Some it' \<and>
         map_of it' ''postCount'' = Some (N 1) \<and> map_of it' ''rankCount'' = Some (N 1) \<and>
         map_of it' ''postsLastUpdatedAt'' = Some (S now))) \<and>
   (\<forall>it rc pc. table_get_item tbl (album_pk album_id) = Some it \<and>
          map_of it ''postCount'' = Some (N pc) \<and> map_of it ''rankCount'' = Some (N rc) \<longrightarrow>
      (\<exists>it' tbl'.
         transact_write_items [transact_add_post album_id (Some rc) now] tbl = Inr tbl' \<and>
         table_get_item tbl' (album_pk album_id) = Some it' \<and>
         map_of it' ''postCount'' = Some (N (pc + 1)) \<and>
         map_of it' ''rankCount'' = Some (N (rc + 1)))) \<and>
   (\<forall>tbl'. transact_write_items [transact_increment_rank_count album_id rank_count now] tbl =
            Inr tbl' \<longrightarrow>
      (\<exists>it it'. table_get_item tbl (album_pk album_id) = Some it \<and>
            map_of it ''rankCount'' = Some (N rank_count) \<and>
            table_get_item tbl' (album_pk album_id) = Some it' \<and>
            map_of it' ''rankCount'' = Some (N (rank_count + 1))))"
proof (cases "table_get_item tbl (album_pk album_id)")
  case None
  then show ?thesis
    by (simp add: transact_add_post_absent transact_increment_rank_count_absent)
next
  case (Some old)
  have hk: "has_key (album_pk album_id) old"
    using Some by (rule table_get_item_has_key)
  have get: "table_get_item
      (replace_item (album_pk album_id)
         (AList.update ''postsLastUpdatedAt'' v (AList.update ''rankCount'' w old)) tbl)
      (album_pk album_id) =
    Some (AList.update ''postsLastUpdatedAt'' v (AList.update ''rankCount'' w old))" for v w
    using Some hk by (simp add: table_get_item_replace_same has_key_update)
  have get3: "table_get_item
      (replace_item (album_pk album_id)
         (AList.update ''postsLastUpdatedAt'' v
            (AList.update ''rankCount'' w (AList.update ''postCount'' u old))) tbl)
      (album_pk album_id) =
    Some (AList.update ''postsLastUpdatedAt'' v
            (AList.update ''rankCount'' w (AList.update ''postCount'' u old)))" for u v w
    using Some hk by (simp add: table_get_item_replace_same has_key_update)
  have a: "\<forall>tbl'. transact_write_items [transact_add_post album_id old_rank_count now] tbl =
      Inr tbl' \<longrightarrow> map_of old ''rankCount'' = map_option N old_rank_count"
    by (cases old_rank_count) (auto simp: transact_add_post_present [OF Some] split: if_splits)
  have b: "map_of old ''postCount'' = None \<and> map_of old ''rankCount'' = None \<longrightarrow>
      (\<exists>it' tbl'.
         transact_write_items [transact_add_post album_id None now] tbl = Inr tbl' \<and>
         table_get_item tbl' (album_pk album_id) = Some it' \<and>
         map_of it' ''postCount'' = Some (N 1) \<and> map_of it' ''rankCount'' = Some (N 1) \<and>
         map_of it' ''postsLastUpdatedAt'' = Some (S now))"
    by (auto simp: transact_add_post_present [OF Some] attr_name_Nil get3 update_conv')
  have c: "\<forall>rc pc. map_of old ''postCount'' = Some (N pc) \<and>
        map_of old ''rankCount'' = Some (N rc) \<longrightarrow>
      (\<exists>it' tbl'.
         transact_write_items [transact_add_post album_id (Some rc) now] tbl = Inr tbl' \<and>
         table_get_item tbl' (album_pk album_id) = Some it' \<and>
         map_of it' ''postCount'' = Some (N (pc + 1)) \<and>
         map_of it' ''rankCount'' = Some (N (rc + 1)))"
    by (auto simp: transact_add_post_present [OF Some] attr_name_Nil get3 update_conv')
  have d: "\<forall>tbl'. transact_write_items [transact_increment_rank_count album_id rank_count now] tbl =
            Inr tbl' \<longrightarrow>
      (\<exists>it'. map_of old ''rankCount'' = Some (N rank_count) \<and>
            table_get_item tbl' (album_pk album_id) = Some it' \<and>
            map_of it' ''rankCount'' = Some (N (rank_count + 1)))"
    by (auto simp: transact_increment_rank_count_present [OF Some] get update_conv'
        split: if_splits)
  show ?thesis
    using a b c d by (simp add: Some)
qed

theorem transact_add_post_rank_count_condition_witness:
  "(\<exists>it' tbl'.
      transact_write_items [transact_add_post ''a1'' None ''t'']
        [add_album_item ''a1'' ''u1'' ''n'' None ''t0''] = Inr tbl' \<and>
      table_get_item tbl' (album_pk ''a1'') = Some it' \<and>
      map_of it' ''postCount'' = Some (N 1) \<and> map_of it' ''rankCount'' = Some (N 1)) \<and>
   (\<exists>it' tbl'.
      transact_write_items [transact_add_post ''a1'' (Some 1) ''t'']
        [key_item (album_pk ''a1'') @ [(''postCount'', N 1), (''rankCount'', N 1)]] = Inr tbl' \<and>
      table_get_item tbl' (album_pk ''a1'') = Some it' \<and>
      map_of it' ''postCount'' = Some (N 2) \<and> map_of it' ''rankCount'' = Some (N 2)) \<and>
   (\<exists>it' tbl'.
      transact_write_items [transact_increment_rank_count ''a1'' 1 ''t'']
        [key_item (album_pk ''a1'') @ [(''postCount'', N 1), (''rankCount'', N 1)]] = Inr tbl' \<and>
      table_get_item tbl' (album_pk ''a1'') = Some it' \<and>
      map_of it' ''rankCount'' = Some (N 2))"
proof -
  let ?new = "add_album_item ''a1'' ''u1'' ''n'' None ''t0''"
  let ?one = "key_item (album_pk ''a1'') @ [(''postCount'', N 1), (''rankCount'', N 1)]"
  have g: "table_get_item [?new] (album_pk ''a1'') = Some ?new"
    by (simp add: add_album_item_def table_get_item_single)
  have p: "map_of ?new ''postCount'' = None \<and> map_of ?new ''rankCount'' = None"
    by (simp add: add_album_item_def key_item_def)
  have g1: "table_get_item [?one] (album_pk ''a1'') = Some ?one"
    by (rule table_get_item_single)
  have p1: "map_of ?one ''postCount'' = Some (N 1) \<and> map_of ?one ''rankCount'' = Some (N 1)"
    by (simp add: key_item_def)
  have a: "\<exists>it' tbl'.
      transact_write_items [transact_add_post ''a1'' None ''t''] [?new] = Inr tbl' \<and>
      table_get_item tbl' (album_pk ''a1'') = Some it' \<and>
      map_of it' ''postCount'' = Some (N 1) \<and> map_of it' ''rankCount'' = Some (N 1)"
    using transact_add_post_rank_count_condition [where album_id = "''a1''"
        and old_rank_count = None and now = "''t''" and tbl = "[?new]" and rank_count = 0] g p
    by auto
  have b: "\<exists>it' tbl'.
      transact_write_items [transact_add_post ''a1'' (Some 1) ''t''] [?one] = Inr tbl' \<and>
      table_get_item tbl' (album_pk ''a1'') = Some it' \<and>
      map_of it' ''postCount'' = Some (N 2) \<and> map_of it' ''rankCount'' = Some (N 2)"
    using transact_add_post_rank_count_condition [where album_id = "''a1''"
        and old_rank_count = "Some 1" and now = "''t''" and tbl = "[?one]" and rank_count = 1]
      g1 p1
    by auto
  have inc: "\<exists>tbl'. transact_write_items [transact_increment_rank_count ''a1'' 1 ''t''] [?one] =
      Inr tbl'"
    using p1 by (simp add: transact_increment_rank_count_present [OF g1])
  have c: "\<exists>it' tbl'.
      transact_write_items [transact_increment_rank_count ''a1'' 1 ''t''] [?one] = Inr tbl' \<and>
      table_get_item tbl' (album_pk ''a1'') = Some it' \<and>
      map_of it' ''rankCount'' = Some (N 2)"
    using inc transact_add_post_rank_count_condition [where album_id = "''a1''"
        and old_rank_count = "Some 1" and now = "''t''" and tbl = "[?one]" and rank_count = 1]
    by auto
  show ?thesis
    using a b c by blast
qed

section \<open>Creating and deleting records\<close>

lemma client_add_item_new:
  "key_of it = Some k \<Longrightarrow> table_get_item (table s) k = None \<Longrightarrow>
   client_add_item it s = (Inr it, s\<lparr>table := table s @ [it]\<rparr>)"
  by (simp add: client_add_item_def table_put_item_def check_condition_def attr_name_Nil)

lemma client_add_item_exists:
  "key_of it = Some k \<Longrightarrow> table_get_item (table s) k = Some old \<Longrightarrow>
   client_add_item it s = (Inl ConditionalCheckFailedException, s)"
  by (auto simp: client_add_item_def table_put_item_def check_condition_def attr_name_Nil
      dest!: table_get_item_has_key has_key_partitionKey)

text \<open>
  Claim C5. For an album and for a flag alike: when the key is not in the table, the add
  inserts the record, which a get then returns, and a second add with the same key,
  whatever its other arguments, raises the typed error (\<open>AlbumAlreadyExists\<close>,
  \<open>AlreadyFlagged\<close>) in place of the store's conditional-check failure and returns the
  state unchanged, so the first record is not modified. An add on a key that is present
  raises the typed error and changes nothing.
\<close>

theorem add_twice_already_exists:
  "(get_album album_id s = None \<longrightarrow>
      (\<exists>s1. add_album album_id user_id name description created_at s =
              (Inr (add_album_item album_id user_id name description created_at), s1) \<and>
            get_album album_id s1 =
              Some (add_album_item album_id user_id name description created_at) \<and>
            add_album album_id user_id' name' description' created_at' s1 =
              (Inl (AlbumAlreadyExists album_id), s1))) \<and>
   (get_album album_id s \<noteq> None \<longrightarrow>
      add_album album_id user_id name description created_at s =
        (Inl (AlbumAlreadyExists album_id), s)) \<and>
   (flag_get item_type item_id flagger s = None \<longrightarrow>
      (\<exists>s1. flag_add item_type item_id flagger now s =
              (Inr (flag_add_item item_type item_id flagger now), s1) \<and>
            flag_get item_type item_id flagger s1 =
              Some (flag_add_item item_type item_id flagger now) \<and>
            flag_add item_type item_id flagger now' s1 =
              (Inl (AlreadyFlagged item_type item_id flagger), s1))) \<and>
   (flag_get item_type item_id flagger s \<noteq> None \<longrightarrow>
      flag_add item_type item_id flagger now s =
        (Inl (AlreadyFlagged item_type item_id flagger), s))"
proof -
  have ka: "key_of (add_album_item album_id u n d c) = Some (album_pk album_id)" for u n d c
    by (simp add: add_album_item_def key_of_key_item_append)
  have kf: "key_of (flag_add_item item_type item_id flagger t) =
      Some (flag_pk item_type item_id flagger)" for t
    by (simp add: flag_add_item_def key_of_key_item_append)
  have a_new: "get_album album_id s = None \<Longrightarrow>
      add_album album_id u n d c s =
        (Inr (add_album_item album_id u n d c),
         s\<lparr>table := table s @ [add_album_item album_id u n d c]\<rparr>)" for u n d c
    by (simp add: add_album_def get_album_def client_get_item_def client_add_item_new [OF ka])
  have a_old: "get_album album_id t \<noteq> None \<Longrightarrow>
      add_album album_id u n d c t = (Inl (AlbumAlreadyExists album_id), t)" for u n d c t
    by (auto simp: add_album_def get_album_def client_get_item_def
        client_add_item_exists [OF ka])
  have a_get: "get_album album_id s = None \<Longrightarrow>
      get_album album_id (s\<lparr>table := table s @ [add_album_item album_id u n d c]\<rparr>) =
        Some (add_album_item album_id u n d c)" for u n d c
    by (simp add: get_album_def client_get_item_def table_get_item_append_new has_key_def ka)
  have f_new: "flag_get item_type item_id flagger s = None \<Longrightarrow>
      flag_add item_type item_id flagger t s =
        (Inr (flag_add_item item_type item_id flagger t),
         s\<lparr>table := table s @ [flag_add_item item_type item_id flagger t]\<rparr>)" for t
    by (simp add: flag_add_def flag_get_def client_get_item_def client_add_item_new [OF kf])
  have f_old: "flag_get item_type item_id flagger t \<noteq> None \<Longrightarrow>
      flag_add item_type item_id flagger c t =
        (Inl (AlreadyFlagged item_type item_id flagger), t)" for c t
    by (auto simp: flag_add_def flag_get_def client_get_item_def
        client_add_item_exists [OF kf])
  have f_get: "flag_get item_type item_id flagger s = None \<Longrightarrow>
      flag_get item_type item_id flagger
        (s\<lparr>table := table s @ [flag_add_item item_type item_id flagger t]\<rparr>) =
        Some (flag_add_item item_type item_id flagger t)" for t
    by (simp add: flag_get_def client_get_item_def table_get_item_append_new has_key_def kf)
  show ?thesis
    using a_new a_old a_get f_new f_old f_get by (auto simp del: not_None_eq)
qed

theorem add_twice_already_exists_witness:
  "get_album ''a1'' \<lparr>table = [], warnings = []\<rparr> = None \<and>
   (\<exists>s1. add_album ''a1'' ''u1'' ''n'' None ''t'' \<lparr>table = [], warnings = []\<rparr> =
           (Inr (add_album_item ''a1'' ''u1'' ''n'' None ''t''), s1) \<and>
         add_album ''a1'' ''u2'' ''m'' (Some ''d'') ''t2'' s1 =
           (Inl (AlbumAlreadyExists ''a1''), s1)) \<and>
   flag_get ''post'' ''p1'' ''u1'' \<lparr>table = [], warnings = []\<rparr> = None \<and>
   (\<exists>s1. flag_add ''post'' ''p1'' ''u1'' ''t'' \<lparr>table = [], warnings = []\<rparr> =
           (Inr (flag_add_item ''post'' ''p1'' ''u1'' ''t''), s1) \<and>
         flag_add ''post'' ''p1'' ''u1'' ''t2'' s1 =
           (Inl (AlreadyFlagged ''post'' ''p1'' ''u1''), s1)) \<and>
   add_album ''a1'' ''u2'' ''m'' None ''t2''
     \<lparr>table = [add_album_item ''a1'' ''u1'' ''n'' None ''t'',
               flag_add_item ''post'' ''p1'' ''u1'' ''t''], warnings = []\<rparr> =
     (Inl (AlbumAlreadyExists ''a1''),
      \<lparr>table = [add_album_item ''a1'' ''u1'' ''n'' None ''t'',
                flag_add_item ''post'' ''p1'' ''u1'' ''t''], warnings = []\<rparr>) \<and>
   flag_add ''post'' ''p1'' ''u1'' ''t2''
     \<lparr>table = [add_album_item ''a1'' ''u1'' ''n'' None ''t'',
               flag_add_item ''post'' ''p1'' ''u1'' ''t''], warnings = []\<rparr> =
     (Inl (AlreadyFlagged ''post'' ''p1'' ''u1''),
      \<lparr>table = [add_album_item ''a1'' ''u1'' ''n'' None ''t'',
                flag_add_item ''post'' ''p1'' ''u1'' ''t''], warnings = []\<rparr>)"
proof -
  let ?empty = "\<lparr>table = [], warnings = []\<rparr>"
  let ?full = "\<lparr>table = [add_album_item ''a1'' ''u1'' ''n'' None ''t'',
    flag_add_item ''post'' ''p1'' ''u1'' ''t''], warnings = []\<rparr>"
  have g: "get_album ''a1'' ?empty = None"
    by (simp add: get_album_def client_get_item_def table_get_item_def)
  have f: "flag_get ''post'' ''p1'' ''u1'' ?empty = None"
    by (simp add: flag_get_def client_get_item_def table_get_item_def)
  have g': "get_album ''a1'' ?full \<noteq> None"
    by (simp add: get_album_def client_get_item_def table_get_item_def has_key_def
        add_album_item_def key_of_key_item_append)
  have f': "flag_get ''post'' ''p1'' ''u1'' ?full \<noteq> None"
    by (simp add: flag_get_def client_get_item_def table_get_item_def has_key_def
        add_album_item_def flag_add_item_def key_of_key_item_append album_pk_def flag_pk_def)
  note first = add_twice_already_exists [where album_id = "''a1''" and s = ?empty
      and user_id = "''u1''" and name = "''n''" and description = None and created_at = "''t''"
      and user_id' = "''u2''" and name' = "''m''" and description' = "Some ''d''"
      and created_at' = "''t2''" and item_type = "''post''" and item_id = "''p1''"
      and flagger = "''u1''" and now = "''t''" and now' = "''t2''"]
  note again = add_twice_already_exists [where album_id = "''a1''" and s = ?full
      and user_id = "''u2''" and name = "''m''" and description = None and created_at = "''t2''"
      and user_id' = "''u2''" and name' = "''m''" and description' = None
      and created_at' = "''t2''" and item_type = "''post''" and item_id = "''p1''"
      and flagger = "''u1''" and now = "''t2''" and now' = "''t2''"]
  show ?thesis
    using g f g' f' first again by blast
qed

lemma filter_absent_key:
  "table_get_item tbl k = None \<Longrightarrow> filter (\<lambda>it. \<not> has_key k it) tbl = tbl"
  by (induction tbl) (auto simp: table_get_item_def split: if_splits)

lemma client_delete_item_absent:
  "table_get_item (table s) k = None \<Longrightarrow> client_delete_item k s = (None, s)"
  by (simp add: client_delete_item_def table_delete_item_def filter_absent_key)

lemma client_delete_item_present:
  "table_get_item (table s) k = Some it \<Longrightarrow>
   client_delete_item k s = (Some it, s\<lparr>table := filter (\<lambda>it. \<not> has_key k it) (table s)\<rparr>)"
  by (simp add: client_delete_item_def table_delete_item_def)

text \<open>
  Claim C6. For an album and for a flag alike: delete raises exactly when the key is not
  in the table, the error is the typed one (\<open>AlbumDoesNotExist\<close>, \<open>NotFlagged\<close>) and
  the state is returned as it was; when the key is present delete does not raise (and
  \<open>delete_album\<close> returns the record deleted). After a delete, a get of the key returns
  nothing.
\<close>

theorem delete_raises_iff_absent:
  "((\<exists>e. fst (delete_album album_id s) = Inl e) = (get_album album_id s = None)) \<and>
   (get_album album_id s = None \<longrightarrow>
      delete_album album_id s = (Inl (AlbumDoesNotExist album_id), s)) \<and>
   (\<forall>it. get_album album_id s = Some it \<longrightarrow> fst (delete_album album_id s) = Inr it) \<and>
   get_album album_id (snd (delete_album album_id s)) = None \<and>
   ((\<exists>e. fst (flag_delete item_type item_id user_id s) = Inl e) =
      (flag_get item_type item_id user_id s = None)) \<and>
   (flag_get item_type item_id user_id s = None \<longrightarrow>
      flag_delete item_type item_id user_id s =
        (Inl (NotFlagged item_type item_id user_id), s)) \<and>
   (\<forall>it. flag_get item_type item_id user_id s = Some it \<longrightarrow>
      fst (flag_delete item_type item_id user_id s) = Inr ()) \<and>
   flag_get item_type item_id user_id (snd (flag_delete item_type item_id user_id s)) = None"
proof -
  have album: "((\<exists>e. fst (delete_album album_id s) = Inl e) = (get_album album_id s = None)) \<and>
      (get_album album_id s = None \<longrightarrow>
         delete_album album_id s = (Inl (AlbumDoesNotExist album_id), s)) \<and>
      (\<forall>it. get_album album_id s = Some it \<longrightarrow> fst (delete_album album_id s) = Inr it) \<and>
      get_album album_id (snd (delete_album album_id s)) = None"
  proof (cases "table_get_item (table s) (album_pk album_id)")
    case None
    then show ?thesis
      by (simp add: delete_album_def get_album_def client_get_item_def
          client_delete_item_absent)
  next
    case (Some it)
    then have "it \<noteq> []"
      by (auto dest: table_get_item_has_key has_key_nonempty)
    then show ?thesis
      using Some
      by (simp add: delete_album_def get_album_def client_get_item_def
          client_delete_item_present table_get_item_delete_same)
  qed
  have flag: "((\<exists>e. fst (flag_delete item_type item_id user_id s) = Inl e) =
         (flag_get item_type item_id user_id s = None)) \<and>
      (flag_get item_type item_id user_id s = None \<longrightarrow>
         flag_delete item_type item_id user_id s =
           (Inl (NotFlagged item_type item_id user_id), s)) \<and>
      (\<forall>it. flag_get item_type item_id user_id s = Some it \<longrightarrow>
         fst (flag_delete item_type item_id user_id s) = Inr ()) \<and>
      flag_get item_type item_id user_id (snd (flag_delete item_type item_id user_id s)) = None"
  proof (cases "table_get_item (table s) (flag_pk item_type item_id user_id)")
    case None
    then show ?thesis
      by (simp add: flag_delete_def flag_get_def client_get_item_def
          client_delete_item_absent)
  next
    case (Some it)
    then have "it \<noteq> []"
      by (auto dest: table_get_item_has_key has_key_nonempty)
    then show ?thesis
      using Some
      by (simp add: flag_delete_def flag_get_def client_get_item_def
          client_delete_item_present table_get_item_delete_same)
  qed
  show ?thesis
    using album flag by simp
qed

theorem delete_raises_iff_absent_witness:
  "fst (delete_album ''a1''
     \<lparr>table = [add_album_item ''a1'' ''u1'' ''n'' None ''t'',
               flag_add_item ''post'' ''p1'' ''u1'' ''t''], warnings = []\<rparr>) =
     Inr (add_album_item ''a1'' ''u1'' ''n'' None ''t'') \<and>
   fst (flag_delete ''post'' ''p1'' ''u1''
     \<lparr>table = [add_album_item ''a1'' ''u1'' ''n'' None ''t'',
               flag_add_item ''post'' ''p1'' ''u1'' ''t''], warnings = []\<rparr>) = Inr () \<and>
   flag_get ''post'' ''p1'' ''u1'' (snd (flag_delete ''post'' ''p1'' ''u1''
     \<lparr>table = [add_album_item ''a1'' ''u1'' ''n'' None ''t'',
               flag_add_item ''post'' ''p1'' ''u1'' ''t''], warnings = []\<rparr>)) = None \<and>
   delete_album ''a1'' \<lparr>table = [], warnings = []\<rparr> =
     (Inl (AlbumDoesNotExist ''a1''), \<lparr>table = [], warnings = []\<rparr>) \<and>
   flag_delete ''post'' ''p1'' ''u1'' \<lparr>table = [], warnings = []\<rparr> =
     (Inl (NotFlagged ''post'' ''p1'' ''u1''), \<lparr>table = [], warnings = []\<rparr>)"
proof -
  let ?empty = "\<lparr>table = [], warnings = []\<rparr>"
  let ?album = "add_album_item ''a1'' ''u1'' ''n'' None ''t''"
  let ?flag = "flag_add_item ''post'' ''p1'' ''u1'' ''t''"
  let ?full = "\<lparr>table = [?album, ?flag], warnings = []\<rparr>"
  have g1: "get_album ''a1'' ?full = Some ?album"
    by (simp add: get_album_def client_get_item_def table_get_item_def has_key_def
        add_album_item_def key_of_key_item_append)
  have f1: "flag_get ''post'' ''p1'' ''u1'' ?full = Some ?flag"
    by (simp add: flag_get_def client_get_item_def table_get_item_def has_key_def
        add_album_item_def flag_add_item_def key_of_key_item_append album_pk_def flag_pk_def)
  have g0: "get_album ''a1'' ?empty = None"
    by (simp add: get_album_def client_get_item_def table_get_item_def)
  have f0: "flag_get ''post'' ''p1'' ''u1'' ?empty = None"
    by (simp add: flag_get_def client_get_item_def table_get_item_def)
  show ?thesis
    using g1 f1 g0 f0
      delete_raises_iff_absent [where album_id = "''a1''" and s = ?full
        and item_type = "''post''" and item_id = "''p1''" and user_id = "''u1''"]
      delete_raises_iff_absent [where album_id = "''a1''" and s = ?empty
        and item_type = "''post''" and item_id = "''p1''" and user_id = "''u1''"]
    by blast
qed

section \<open>Fail-soft index maintenance\<close>









section \<open>The conditional update of the user migration\<close>

lemma table_update_item_present:
  "table_get_item tbl k = Some old \<Longrightarrow>
   table_update_item
     \<lparr>Key = k, UpdateExpression = acts, ConditionExpression = c,
      ExpressionAttributeNames = nms, ExpressionAttributeValues = vals\<rparr> tbl =
     (if check_condition (Some old) nms vals c
      then (case apply_actions old nms vals acts old of
              None \<Rightarrow> Inl ValidationException
            | Some new \<Rightarrow> Inr (new, replace_item k new tbl))
      else Inl ConditionalCheckFailedException)"
  by (simp add: table_update_item_def split: option.splits)

text \<open>
  Claim C1. For a user record whose \<open>postArchivedCount\<close> is not what the caller expects
  (a value where none is expected, no value or another value where \<open>old_value\<close> is
  expected), \<open>dynamo_update_user\<close> raises the exception with the message
  \<open>Update failed for user {id}\<close> and returns the state as it was, so the stored value
  is not overwritten. When the stored value is the expected one the update succeeds and
  the record carries the new value and the new schema version.
\<close>

theorem dynamo_update_user_race:
  "(\<forall>it. table_get_item (table s) (user_pk user_id) = Some it \<and>
          map_of it ''postArchivedCount'' \<noteq> map_option N old_value \<longrightarrow>
      dynamo_update_user user_id old_value new_value s =
        (Inl (Exception (''Update failed for user '' @ user_id)), s)) \<and>
   (\<forall>it. table_get_item (table s) (user_pk user_id) = Some it \<and>
          map_of it ''postArchivedCount'' = map_option N old_value \<longrightarrow>
      (\<exists>s' it'.
         dynamo_update_user user_id old_value new_value s = (Inr (), s') \<and>
         table_get_item (table s') (user_pk user_id) = Some it' \<and>
         map_of it' ''schemaVersion'' = Some (N 7) \<and>
         map_of it' ''postArchivedCount'' = Some (N new_value)))"
proof (cases "table_get_item (table s) (user_pk user_id)")
  case None
  then show ?thesis by simp
next
  case (Some old)
  let ?k = "user_pk user_id"
  have hk: "has_key ?k (AList.update ''postArchivedCount'' v
      (AList.update ''schemaVersion'' w old))" for v w
    using Some by (simp add: has_key_update table_get_item_has_key)
  show ?thesis
    unfolding dynamo_update_user_def
    by (subst table_update_item_present [OF Some])+
      (cases old_value;
        auto simp: Some hk check_condition_def attr_name_Nil table_get_item_replace_same
          update_conv' split: option.splits)
qed

theorem dynamo_update_user_race_witness:
  "dynamo_update_user ''u1'' None 2
     \<lparr>table = [key_item (user_pk ''u1'') @
        [(''schemaVersion'', N 6), (''userId'', S ''u1''), (''postArchivedCount'', N 2)]],
      warnings = []\<rparr> =
     (Inl (Exception ''Update failed for user u1''),
      \<lparr>table = [key_item (user_pk ''u1'') @
         [(''schemaVersion'', N 6), (''userId'', S ''u1''), (''postArchivedCount'', N 2)]],
       warnings = []\<rparr>) \<and>
   dynamo_update_user ''u1'' (Some 1) 2
     \<lparr>table = [key_item (user_pk ''u1'') @
        [(''schemaVersion'', N 6), (''userId'', S ''u1''), (''postArchivedCount'', N 2)]],
      warnings = []\<rparr> =
     (Inl (Exception ''Update failed for user u1''),
      \<lparr>table = [key_item (user_pk ''u1'') @
         [(''schemaVersion'', N 6), (''userId'', S ''u1''), (''postArchivedCount'', N 2)]],
       warnings = []\<rparr>) \<and>
   (\<exists>s'. dynamo_update_user ''u1'' (Some 2) 2
     \<lparr>table = [key_item (user_pk ''u1'') @
        [(''schemaVersion'', N 6), (''userId'', S ''u1''), (''postArchivedCount'', N 2)]],
      warnings = []\<rparr> = (Inr (), s'))"
proof -
  let ?it = "key_item (user_pk ''u1'') @
    [(''schemaVersion'', N 6), (''userId'', S ''u1''), (''postArchivedCount'', N 2)]"
  let ?s = "\<lparr>table = [?it], warnings = []\<rparr>"
  have g: "table_get_item (table ?s) (user_pk ''u1'') = Some ?it"
    by (simp add: table_get_item_def has_key_def key_of_key_item_append)
  have p: "map_of ?it ''postArchivedCount'' = Some (N 2)"
    by (simp add: key_item_def)
  have a: "dynamo_update_user ''u1'' None 2 ?s =
      (Inl (Exception (''Update failed for user '' @ ''u1'')), ?s)"
    using g p dynamo_update_user_race [where user_id = "''u1''" and old_value = None
        and new_value = 2 and s = ?s]
    by simp
  have b: "dynamo_update_user ''u1'' (Some 1) 2 ?s =
      (Inl (Exception (''Update failed for user '' @ ''u1'')), ?s)"
    using g p dynamo_update_user_race [where user_id = "''u1''" and old_value = "Some 1"
        and new_value = 2 and s = ?s]
    by simp
  have c: "\<exists>s'. dynamo_update_user ''u1'' (Some 2) 2 ?s = (Inr (), s')"
    using g p dynamo_update_user_race [where user_id = "''u1''" and old_value = "Some 2"
        and new_value = 2 and s = ?s]
    by auto
  show ?thesis
    using a b c by simp
qed

section \<open>Scanning and migrating\<close>

lemma wf_table_key: "wf_table tbl \<Longrightarrow> it \<in> set tbl \<Longrightarrow> \<exists>k. key_of it = Some k"
  by (auto simp: wf_table_def list_all_iff)

lemma after_key_split:
  assumes "wf_table (pre @ it # post)" and "key_of it = Some k"
  shows "after_key (Some k) (pre @ it # post) = post"
proof -
  have "\<not> has_key k x" if "x \<in> set pre" for x
  proof
    assume "has_key k x"
    then have "key_of x = key_of it"
      using assms(2) by (simp add: has_key_def)
    moreover have "key_of it \<notin> key_of ` set pre"
      using assms(1) by (simp add: wf_table_def)
    ultimately show False
      using that by (metis imageI)
  qed
  then have "dropWhile (\<lambda>x. \<not> has_key k x) (pre @ it # post) =
      dropWhile (\<lambda>x. \<not> has_key k x) (it # post)"
    by simp
  then show ?thesis
    using assms(2) by (simp add: after_key_def has_key_def)
qed

lemma for_items_fold:
  assumes "\<And>it a. it \<in> set xs \<Longrightarrow> body it (a, tbl) = Inr (g a it, tbl)"
  shows "for_items body xs (a, tbl) = Inr (foldl g a xs, tbl)"
  using assms by (induction xs arbitrary: a) auto

lemma generate_all_posts_from:
  assumes wf: "wf_table tbl" and page: "0 < page"
    and body: "\<And>it a. it \<in> set tbl \<Longrightarrow> post_filter version it \<Longrightarrow>
      body it (a, tbl) = Inr (g a it, tbl)"
  shows "tbl = pre @ post \<Longrightarrow> after_key esk tbl = post \<Longrightarrow>
    generate_all_posts page version body esk (a, tbl) =
      Some (Inr (foldl g a (filter (post_filter version) post), tbl))"
proof (induction "length post" arbitrary: pre post esk a rule: less_induct)
  case less
  let ?flt = "post_filter version"
  let ?ex = "take page post"
  have sub: "set post \<subseteq> set tbl"
    using less.prems(1) by auto
  have items: "for_items body (filter ?flt ?ex) (a, tbl) = Inr (foldl g a (filter ?flt ?ex), tbl)"
    by (rule for_items_fold) (use sub body in \<open>auto dest: in_set_takeD\<close>)
  show ?case
  proof (cases "page < length post")
    case False
    then have "?ex = post" by simp
    then show ?thesis
      using False items less.prems(2)
      by (subst generate_all_posts.simps) (simp add: table_scan_def Let_def)
  next
    case True
    then have ne: "?ex \<noteq> []"
      using page by auto
    have "last ?ex \<in> set tbl"
      using last_in_set [OF ne] sub by (auto dest: in_set_takeD)
    then obtain k where k: "key_of (last ?ex) = Some k"
      using wf_table_key [OF wf] by blast
    have split: "tbl = (pre @ butlast ?ex) @ last ?ex # drop page post"
      using less.prems(1) ne
      by (metis append.assoc append_Cons append_Nil append_butlast_last_id append_take_drop_id)
    have next_key: "after_key (Some k) tbl = drop page post"
      using after_key_split [of "pre @ butlast ?ex" "last ?ex" "drop page post" k] wf k split
      by simp
    have shorter: "length (drop page post) < length post"
      using True page by simp
    have tbl2: "tbl = (pre @ ?ex) @ drop page post"
      using less.prems(1) by simp
    have rec: "generate_all_posts page version body (Some k) (foldl g a (filter ?flt ?ex), tbl) =
        Some (Inr (foldl g (foldl g a (filter ?flt ?ex)) (filter ?flt (drop page post)), tbl))"
      by (rule less.hyps [OF shorter tbl2 next_key])
    have join: "foldl g (foldl g a (filter ?flt ?ex)) (filter ?flt (drop page post)) =
        foldl g a (filter ?flt post)"
      by (metis append_take_drop_id filter_append foldl_append)
    have lek: "LastEvaluatedKey (table_scan page ?flt esk tbl) = Some k"
      using True ne k less.prems(2)
      by (cases "take page post") (simp_all add: table_scan_def Let_def)
    have its: "Items (table_scan page ?flt esk tbl) = filter ?flt ?ex"
      using less.prems(2) by (simp add: table_scan_def Let_def)
    show ?thesis
      by (subst generate_all_posts.simps) (simp add: lek its items rec join)
  qed
qed

text \<open>
  Claim C8. On a table with unique primary keys that nothing else writes to, and a store
  that examines at least one item per page, draining \<open>generate_all_posts\<close> returns, and
  the list it yields is exactly the records of the table that pass the filter, each
  once and in the table's order, however many pages the scan takes: the loop follows
  \<open>LastEvaluatedKey\<close> until the store reports none.
\<close>

theorem generate_all_posts_complete:
  assumes "wf_table tbl" and "0 < page"
  shows "generate_all_posts page version collect None ([], tbl) =
           Some (Inr (filter (post_filter version) tbl, tbl))"
proof -
  have "generate_all_posts page version collect None ([], tbl) =
      Some (Inr (foldl (\<lambda>acc it. acc @ [it]) [] (filter (post_filter version) tbl), tbl))"
    by (rule generate_all_posts_from [OF assms, where pre = "[]"])
      (simp_all add: collect_def after_key_def)
  moreover have "foldl (\<lambda>acc it. acc @ [it]) ys xs = ys @ xs" for xs ys :: "item list"
    by (induction xs arbitrary: ys) simp_all
  ultimately show ?thesis by simp
qed

theorem generate_all_posts_complete_witness:
  "wf_table
     [key_item (''post/p1'', ''-'') @ [(''schemaVersion'', N 0)],
      key_item (''user/u1'', ''profile'') @ [(''schemaVersion'', N 0)],
      key_item (''post/p2'', ''-'') @ [(''schemaVersion'', N 1)],
      key_item (''post/p3'', ''-'') @ [(''schemaVersion'', N 0)]] \<and>
   (0 :: nat) < 2 \<and>
   generate_all_posts 2 0 collect None
     ([],
      [key_item (''post/p1'', ''-'') @ [(''schemaVersion'', N 0)],
       key_item (''user/u1'', ''profile'') @ [(''schemaVersion'', N 0)],
       key_item (''post/p2'', ''-'') @ [(''schemaVersion'', N 1)],
       key_item (''post/p3'', ''-'') @ [(''schemaVersion'', N 0)]]) =
   Some (Inr
     ([key_item (''post/p1'', ''-'') @ [(''schemaVersion'', N 0)],
       key_item (''post/p3'', ''-'') @ [(''schemaVersion'', N 0)]],
      [key_item (''post/p1'', ''-'') @ [(''schemaVersion'', N 0)],
       key_item (''user/u1'', ''profile'') @ [(''schemaVersion'', N 0)],
       key_item (''post/p2'', ''-'') @ [(''schemaVersion'', N 1)],
       key_item (''post/p3'', ''-'') @ [(''schemaVersion'', N 0)]]))"
proof -
  let ?tbl =
    "[key_item (''post/p1'', ''-'') @ [(''schemaVersion'', N 0)],
      key_item (''user/u1'', ''profile'') @ [(''schemaVersion'', N 0)],
      key_item (''post/p2'', ''-'') @ [(''schemaVersion'', N 1)],
      key_item (''post/p3'', ''-'') @ [(''schemaVersion'', N 0)]]"
  have wf: "wf_table ?tbl"
    by (simp add: wf_table_def key_of_key_item_append)
  have flt: "filter (post_filter 0) ?tbl =
      [key_item (''post/p1'', ''-'') @ [(''schemaVersion'', N 0)],
       key_item (''post/p3'', ''-'') @ [(''schemaVersion'', N 0)]]"
    by (simp add: post_filter_def attr_name_Nil key_item_def)
  show ?thesis
    using wf flt generate_all_posts_complete [of ?tbl 2 0] by simp
qed

text \<open>
  Claim C2. The scan of a migration from version \<open>V\<close> yields only records whose
  \<open>schemaVersion\<close> is \<open>V\<close> (the filter of \<open>generate_all_posts\<close>). On a table in which no
  record has \<open>schemaVersion = V\<close> the run ends without running the loop body at all:
  the consumer's state and the table come back as they were. For \<open>post_0_to_1\<close> this
  means no \<open>update_item\<close> call, no line printed and every record unchanged.
\<close>

theorem migration_idempotent:
  assumes "wf_table tbl" and "0 < page"
    and "\<forall>it \<in> set tbl. map_of it ''schemaVersion'' \<noteq> Some (N version)"
  shows "generate_all_posts page version body None (a, tbl) = Some (Inr (a, tbl)) \<and>
    (version = 0 \<longrightarrow>
       main page tbl = Some (Inr (\<lparr>printed = [], update_item_calls = 0\<rparr>, tbl)))"
proof -
  have none: "filter (post_filter version) tbl = []"
    using assms(3) by (auto simp: filter_empty_conv post_filter_def attr_name_Nil
        split: option.splits)
  have gen: "generate_all_posts page version body None (a, tbl) =
      Some (Inr (foldl (\<lambda>a it. a) a (filter (post_filter version) tbl), tbl))"
    by (rule generate_all_posts_from [OF assms(1,2), where pre = "[]"])
      (use none in \<open>auto simp: after_key_def filter_empty_conv\<close>)
  have run: "generate_all_posts page version update_post_from_0_to_1 None
        (\<lparr>printed = [], update_item_calls = 0\<rparr>, tbl) =
      Some (Inr (foldl (\<lambda>a it. a) \<lparr>printed = [], update_item_calls = 0\<rparr>
                   (filter (post_filter version) tbl), tbl))"
    by (rule generate_all_posts_from [OF assms(1,2), where pre = "[]"])
      (use none in \<open>auto simp: after_key_def filter_empty_conv\<close>)
  show ?thesis
    using gen run by (auto simp: none main_def)
qed

theorem migration_idempotent_witness:
  "wf_table
     [key_item (''post/p2'', ''-'') @ [(''schemaVersion'', N 1)],
      key_item (''user/u1'', ''profile'') @ [(''schemaVersion'', N 7)]] \<and>
   (0 :: nat) < 1 \<and>
   map_of (key_item (''post/p2'', ''-'') @ [(''schemaVersion'', N 1)]) ''schemaVersion'' \<noteq> Some (N 0) \<and>
   map_of (key_item (''user/u1'', ''profile'') @ [(''schemaVersion'', N 7)]) ''schemaVersion'' \<noteq> Some (N 0) \<and>
   main 1
     [key_item (''post/p2'', ''-'') @ [(''schemaVersion'', N 1)],
      key_item (''user/u1'', ''profile'') @ [(''schemaVersion'', N 7)]] =
   Some (Inr
     (\<lparr>printed = [], update_item_calls = 0\<rparr>,
      [key_item (''post/p2'', ''-'') @ [(''schemaVersion'', N 1)],
       key_item (''user/u1'', ''profile'') @ [(''schemaVersion'', N 7)]]))"
proof -
  let ?tbl =
    "[key_item (''post/p2'', ''-'') @ [(''schemaVersion'', N 1)],
      key_item (''user/u1'', ''profile'') @ [(''schemaVersion'', N 7)]]"
  have wf: "wf_table ?tbl"
    by (simp add: wf_table_def key_of_key_item_append)
  have v: "\<forall>it \<in> set ?tbl. map_of it ''schemaVersion'' \<noteq> Some (N 0)"
    by (simp add: key_item_def)
  show ?thesis
    using wf v migration_idempotent [OF wf _ v, where page = 1 and body = collect and a = "[]"]
    by (simp add: key_item_def)
qed

end
